theory Spec2Isabelle
  imports Complex_Main "HOL-Library.Word"
begin

section \<open>The upload controller of core/classes/FileUtils.py\<close>

text \<open>
  A shallow embedding of \<^verbatim>\<open>FileController\<close>. Python \<^verbatim>\<open>bytes\<close> are lists of
  8-bit words, \<^verbatim>\<open>str\<close> values are \<open>string\<close>s, exceptions are values of the type
  \<open>exn\<close>, and the library and framework collaborators the controller calls
  (\<^verbatim>\<open>base64.b64decode\<close>, \<^verbatim>\<open>filetype.guess\<close>, PIL, the abstract \<^verbatim>\<open>create_file\<close>)
  are fields of an environment record. Every call to a collaborator is written to an event
  list, so that the order of the effects of a handler can be stated.
\<close>

type_synonym byte = "8 word"
type_synonym bytes = "byte list"

subsection \<open>Exceptions\<close>

text \<open>
  The two exception classes of the module, and the library exceptions that reach it:
  \<^verbatim>\<open>binascii.Error\<close> from \<^verbatim>\<open>b64decode\<close>, \<^verbatim>\<open>AttributeError\<close> from reading \<^verbatim>\<open>.mime\<close>
  of \<^verbatim>\<open>None\<close>, \<^verbatim>\<open>UnboundLocalError\<close> from a local read before any assignment, and
  whatever PIL raises on bytes it cannot open.
\<close>

datatype exn =
    FileSizeGreaterThanAllowed
  | ContentTypeNotAllowed string "string list"
  | BinasciiError
  | AttributeError
  | UnboundLocalError string
  | UnidentifiedImageError

subsection \<open>String helpers of Python\<close>

text \<open>
  \<^verbatim>\<open>str.count(sub, start, end)\<close> counts in the slice \<^verbatim>\<open>s[start:end]\<close>. A negative index
  has the length added and is then clipped at 0; an index beyond the end is clipped to the
  length. For a one-character \<^verbatim>\<open>sub\<close> the count is the number of occurrences.
\<close>

definition adjust_index :: "int \<Rightarrow> nat \<Rightarrow> nat" where
  "adjust_index i n = (if i < 0 then nat (max 0 (i + int n)) else min (nat i) n)"

definition str_count :: "string \<Rightarrow> char \<Rightarrow> int \<Rightarrow> int \<Rightarrow> nat" where
  "str_count s c start stop =
     (let n = length s; a = adjust_index start n; b = adjust_index stop n
      in count_list (take (b - a) (drop a s)) c)"

text \<open>
  \<^verbatim>\<open>str.split(sep)\<close> for a one-character separator: the text between the separators, in
  order; the result is never empty (\<^verbatim>\<open>"".split(".") == [""]\<close>).
\<close>

fun str_split :: "char \<Rightarrow> string \<Rightarrow> string list" where
  "str_split sep [] = [[]]"
| "str_split sep (x # xs) =
     (if x = sep then [] # str_split sep xs
      else (case str_split sep xs of
              [] \<Rightarrow> [[x]]
            | p # ps \<Rightarrow> (x # p) # ps))"

subsection \<open>Base64\<close>

text \<open>
  \<^verbatim>\<open>encode_to_base64\<close> is \<^verbatim>\<open>base64.b64encode\<close>: the standard alphabet, three bytes to
  four characters, the last group padded with \<^verbatim>\<open>=\<close>. Its results are the validly-padded
  base64 strings.
\<close>

definition b64_alphabet :: string where
  "b64_alphabet = ''ABCDEFGHIJKLMNOPQRSTUVWXYZabcdefghijklmnopqrstuvwxyz0123456789+/''"

definition b64_char :: "nat \<Rightarrow> char" where
  "b64_char i = b64_alphabet ! (i mod 64)"

fun encode_to_base64 :: "bytes \<Rightarrow> string" where
  "encode_to_base64 [] = []"
| "encode_to_base64 [a] =
     [b64_char (unat a div 4), b64_char ((unat a mod 4) * 16), CHR ''='', CHR ''='']"
| "encode_to_base64 [a, b] =
     [b64_char (unat a div 4), b64_char ((unat a mod 4) * 16 + unat b div 16),
      b64_char ((unat b mod 16) * 4), CHR ''='']"
| "encode_to_base64 (a # b # c # rest) =
     [b64_char (unat a div 4), b64_char ((unat a mod 4) * 16 + unat b div 16),
      b64_char ((unat b mod 16) * 4 + unat c div 64), b64_char (unat c mod 64)]
     @ encode_to_base64 rest"

text \<open>
  \<^verbatim>\<open>get_base64_file_length\<close>, line 255:
  \<^verbatim>\<open>(len(b64string) * 3) / 4 - b64string.count("=", -1, -5)\<close>.
  The division is Python's true division; its result is a multiple of 1/4 and is exact
  as a float for every string shorter than \<open>2^53 / 3\<close> characters, so the value is
  modelled as a rational number.
\<close>

definition get_base64_file_length :: "string \<Rightarrow> rat" where
  "get_base64_file_length b64string =
     of_nat (length b64string * 3) / 4 - of_nat (str_count b64string CHR ''='' (-1) (-5))"

subsection \<open>Thumbnail names\<close>

text \<open>
  The name computed in \<^verbatim>\<open>create_thumbnail\<close>, lines 217 to 222:
  \<^verbatim>\<open>filename = filename.split(".")\<close>, then
  \<^verbatim>\<open>filename[0] + "_thumbnail" + ("." + filename[1] if len(filename) > 1 else "")\<close>.
\<close>

definition thumbnail_name :: "string \<Rightarrow> string" where
  "thumbnail_name filename =
     (let parts = str_split CHR ''.'' filename
      in hd parts @ ''_thumbnail'' @ (if length parts > 1 then ''.'' @ parts ! 1 else ''''))"

text \<open>
  The name as the specification words it: the extension is what follows the last dot, the
  base name is what precedes that dot, and a name without a dot has no extension.
\<close>

definition spec_extension :: "string \<Rightarrow> string" where
  "spec_extension filename = rev (takeWhile (\<lambda>c. c \<noteq> CHR ''.'') (rev filename))"

definition spec_basename :: "string \<Rightarrow> string" where
  "spec_basename filename = take (length filename - length (spec_extension filename) - 1) filename"

definition spec_thumbnail_name :: "string \<Rightarrow> string" where
  "spec_thumbnail_name filename =
     (if CHR ''.'' \<in> set filename
      then spec_basename filename @ ''_thumbnail'' @ ''.'' @ spec_extension filename
      else filename @ ''_thumbnail'')"

subsection \<open>Configuration, collaborators and events\<close>

text \<open>
  The two values \<^verbatim>\<open>__init__\<close> reads from the configuration file, and the class constants.
\<close>

record config =
  accepted_files :: "string list"
  max_file_size :: int

definition CHUNK_SIZE :: nat where
  "CHUNK_SIZE = 8192"

definition IMAGE_EXTENSIONS :: "string set" where
  "IMAGE_EXTENSIONS = {''image/jpeg'', ''image/png'', ''image/jpg''}"

text \<open>
  Modelled from the spec: the constant \<^verbatim>\<open>PROBLEM_SAVING_TO_DB\<close> is inherited from
  \<^verbatim>\<open>core.Controller\<close>, which is not among the sources; the specification gives its text.
\<close>

definition PROBLEM_SAVING_TO_DB :: string where
  "PROBLEM_SAVING_TO_DB = ''problem saving to db''"

text \<open>
  Rows of \<^verbatim>\<open>models.File\<close>, known to the controller only by identity; what is handed to
  \<^verbatim>\<open>create_file\<close> is either a \<^verbatim>\<open>bytes\<close> value or an \<^verbatim>\<open>io.BytesIO\<close> holding bytes.
\<close>

datatype user = User nat

datatype file_model = File nat

datatype file_content = Bytes bytes | BytesIO bytes

record file_args =
  arg_file_name :: string
  arg_file_content :: file_content
  arg_file_type :: string
  arg_user :: user
  arg_is_thumbnail :: nat
  arg_encode_to_base64 :: bool
  arg_public :: bool
  arg_private :: bool

text \<open>
  The collaborators: \<^verbatim>\<open>base64.b64decode\<close> (raises on input it rejects),
  \<^verbatim>\<open>filetype.guess\<close> followed by \<^verbatim>\<open>.mime\<close> (\<open>None\<close> when no type is recognised), the two
  PIL pipelines (open, then save optimised at quality 65; open, then thumbnail to 640 by 640,
  then save), and the \<^verbatim>\<open>create_file\<close> of the concrete subclass (\<open>None\<close> when it reports
  failure).
\<close>

record env =
  b64decode :: "string \<Rightarrow> exn + bytes"
  filetype_guess :: "bytes \<Rightarrow> string option"
  pil_save_optimized :: "bytes \<Rightarrow> exn + bytes"
  pil_thumbnail :: "bytes \<Rightarrow> exn + bytes"
  create_file :: "file_args \<Rightarrow> file_model option"

datatype event =
    StreamRead bytes
  | B64Decode string
  | Guess bytes
  | CompressImage bytes
  | ThumbnailImage bytes
  | CreateFile file_args

subsection \<open>Requests and responses\<close>

text \<open>
  A multipart part with the sequence of segments its stream delivers. A \<^verbatim>\<open>read(n)\<close> returns
  at most \<open>n\<close> bytes and never crosses a segment boundary, so the segmentation fixes where
  the chunk boundaries fall; it returns the empty bytes only at the end of the stream.
\<close>

record part =
  part_content_type :: string
  part_filename :: string
  part_stream :: "bytes list"

datatype session = Session user

fun session_user :: "session \<Rightarrow> user" where
  "session_user (Session u) = u"

text \<open>
  The body of a base64 request after \<^verbatim>\<open>json.loads(req.stream.read())\<close>: a parse error
  with its text, or an object with string fields (the schema of the endpoint).
\<close>

datatype json_body = JsonError string | JsonObject "string \<rightharpoonup> string"

record request =
  req_params :: "string \<rightharpoonup> string"
  req_session :: "session option"
  req_form :: "part list"
  req_body :: json_body

datatype payload = Serialized file_model | Dict "(string \<times> string) list"

datatype response_data = NoData | One payload | Many "payload list"

datatype message = StrOf exn | Text string

text \<open>
  What a handler does: it writes a response (status, data, error text), or returns because
  \<^verbatim>\<open>get_session\<close> found no session, or an exception leaves it.
\<close>

datatype outcome =
    Response nat response_data "message option"
  | NoSession
  | Escaped exn

definition METHOD_NOT_ALLOWED :: nat where
  "METHOD_NOT_ALLOWED = 405"

definition BAD_REQUEST :: nat where
  "BAD_REQUEST = 400"

fun truthy_id :: "int option \<Rightarrow> bool" where
  "truthy_id None = False"
| "truthy_id (Some n) = (n \<noteq> 0)"

definition check_if_make_thumbnail :: "request \<Rightarrow> bool" where
  "check_if_make_thumbnail req = (req_params req ''thumbnail'' = Some ''True'')"

definition check_if_public_file :: "request \<Rightarrow> bool" where
  "check_if_public_file req = (req_params req ''public'' = Some ''True'')"

definition check_if_private_file :: "request \<Rightarrow> bool" where
  "check_if_private_file req = (req_params req ''private'' = Some ''True'')"

definition check_if_valid_content_type :: "config \<Rightarrow> string \<Rightarrow> exn + unit" where
  "check_if_valid_content_type cfg content_type =
     (if content_type \<notin> set (accepted_files cfg)
      then Inl (ContentTypeNotAllowed content_type (accepted_files cfg))
      else Inr ())"

subsection \<open>The stream path\<close>

text \<open>
  \<^verbatim>\<open>part.stream.read(n)\<close> on the segments still to come: the chunk returned and the stream
  that remains.
\<close>

fun stream_read :: "nat \<Rightarrow> bytes list \<Rightarrow> bytes \<times> bytes list" where
  "stream_read n [] = ([], [])"
| "stream_read n (c # cs) =
     (if c = [] then stream_read n cs
      else if length c \<le> n then (c, cs)
      else (take n c, drop n c # cs))"

text \<open>
  \<^verbatim>\<open>compress_image\<close>, lines 65 to 72: the image is opened and saved again, and the
  \<^verbatim>\<open>BytesIO\<close> written to is returned; bytes PIL cannot open raise its exception.
\<close>

definition compress_image :: "env \<Rightarrow> bytes \<Rightarrow> (exn + file_content) \<times> event list" where
  "compress_image e image_data =
     (case pil_save_optimized e image_data of
        Inl x \<Rightarrow> (Inl x, [CompressImage image_data])
      | Inr b \<Rightarrow> (Inr (BytesIO b), [CompressImage image_data]))"

text \<open>
  The loop of \<^verbatim>\<open>process_stream\<close>, lines 77 to 83. The second component of the result lists
  the chunks the calls of \<^verbatim>\<open>read\<close> returned, in order.
\<close>

function read_loop :: "int \<Rightarrow> bytes list \<Rightarrow> nat \<Rightarrow> bytes list \<Rightarrow> (exn + bytes list) \<times> bytes list" where
  "read_loop max_size s read_so_far data =
     (let chunk = fst (stream_read CHUNK_SIZE s); s' = snd (stream_read CHUNK_SIZE s)
      in if chunk = [] then (Inr data, [chunk])
         else if int (read_so_far + length chunk) > max_size
              then (Inl FileSizeGreaterThanAllowed, [chunk])
              else (case read_loop max_size s' (read_so_far + length chunk) (data @ [chunk]) of
                      (res, reads) \<Rightarrow> (res, chunk # reads)))"
  by pat_completeness auto
termination
proof (relation "measure (\<lambda>(m, s, r, d). length (concat s))")
  show "wf (measure (\<lambda>(m, s, r, d). length (concat s)))"
    by simp
next
  fix max_size :: int and s :: "bytes list" and read_so_far :: nat and data :: "bytes list"
    and x xa
  assume x: "x = fst (stream_read CHUNK_SIZE s)" and xa: "xa = snd (stream_read CHUNK_SIZE s)"
    and ne: "x \<noteq> []"
  have "length (fst (stream_read n t)) + length (concat (snd (stream_read n t)))
        = length (concat t)" for n and t :: "bytes list"
    by (induction t) auto
  from this [of CHUNK_SIZE s] have "length x + length (concat xa) = length (concat s)"
    by (simp only: x xa)
  moreover have "0 < length x"
    using ne by simp
  ultimately have "length (concat xa) < length (concat s)"
    by linarith
  then show "((max_size, xa, read_so_far + length x, data @ [x]), max_size, s, read_so_far, data)
      \<in> measure (\<lambda>(m, s, r, d). length (concat s))"
    by simp
qed

definition process_stream :: "env \<Rightarrow> config \<Rightarrow> part \<Rightarrow> (exn + file_content) \<times> event list" where
  "process_stream e cfg p =
     (case check_if_valid_content_type cfg (part_content_type p) of
        Inl x \<Rightarrow> (Inl x, [])
      | Inr _ \<Rightarrow>
          (case read_loop (max_file_size cfg) (part_stream p) 0 [] of
             (Inl x, reads) \<Rightarrow> (Inl x, map StreamRead reads)
           | (Inr data, reads) \<Rightarrow>
               if part_content_type p \<in> IMAGE_EXTENSIONS
               then (case compress_image e (concat data) of
                       (r, ev) \<Rightarrow> (r, map StreamRead reads @ ev))
               else (Inr (Bytes (concat data)), map StreamRead reads)))"

subsection \<open>Persisting the file and its thumbnail\<close>

fun content_bytes :: "file_content \<Rightarrow> bytes" where
  "content_bytes (Bytes b) = b"
| "content_bytes (BytesIO b) = b"

text \<open>
  \<^verbatim>\<open>create_thumbnail_image\<close>, lines 234 to 243: a \<^verbatim>\<open>bytes\<close> value is wrapped in a
  \<^verbatim>\<open>BytesIO\<close> first, so the pipeline runs on the bytes held in either case.
\<close>

definition create_thumbnail_image :: "env \<Rightarrow> file_content \<Rightarrow> (exn + file_content) \<times> event list" where
  "create_thumbnail_image e image_data =
     (case pil_thumbnail e (content_bytes image_data) of
        Inl x \<Rightarrow> (Inl x, [ThumbnailImage (content_bytes image_data)])
      | Inr b \<Rightarrow> (Inr (BytesIO b), [ThumbnailImage (content_bytes image_data)]))"

text \<open>The arguments of the \<^verbatim>\<open>create_file\<close> call of lines 223 to 232.\<close>

definition thumbnail_file_args ::
  "string \<Rightarrow> file_content \<Rightarrow> string \<Rightarrow> user \<Rightarrow> bool \<Rightarrow> bool \<Rightarrow> file_args" where
  "thumbnail_file_args filename thumbnail_content content_type usr to_base64 public =
     \<lparr>arg_file_name = thumbnail_name filename,
      arg_file_content = thumbnail_content,
      arg_file_type = content_type,
      arg_user = usr,
      arg_is_thumbnail = 1,
      arg_encode_to_base64 = to_base64,
      arg_public = public,
      arg_private = False\<rparr>"

definition create_thumbnail ::
  "env \<Rightarrow> file_content \<Rightarrow> string \<Rightarrow> string \<Rightarrow> bool \<Rightarrow> user \<Rightarrow> bool \<Rightarrow> bool
   \<Rightarrow> (exn + file_model option) \<times> event list" where
  "create_thumbnail e image_data filename content_type to_base64 usr public private =
     (case create_thumbnail_image e image_data of
        (Inl x, ev) \<Rightarrow> (Inl x, ev)
      | (Inr thumbnail_content, ev) \<Rightarrow>
          (let args = thumbnail_file_args filename thumbnail_content content_type usr
                        to_base64 public
           in (Inr (create_file e args), ev @ [CreateFile args])))"

text \<open>The arguments of the \<^verbatim>\<open>create_file\<close> call of line 195.\<close>

definition primary_file_args ::
  "string \<Rightarrow> file_content \<Rightarrow> string \<Rightarrow> user \<Rightarrow> bool \<Rightarrow> bool \<Rightarrow> bool \<Rightarrow> file_args" where
  "primary_file_args filename data content_type usr to_base64 public private =
     \<lparr>arg_file_name = filename,
      arg_file_content = data,
      arg_file_type = content_type,
      arg_user = usr,
      arg_is_thumbnail = 0,
      arg_encode_to_base64 = to_base64,
      arg_public = public,
      arg_private = private\<rparr>"

text \<open>
  \<^verbatim>\<open>process_file\<close>, lines 184 to 213. The result is the triple the source returns (the file's
  payload, the thumbnail's payload or \<open>None\<close>, the status code), or the exception of the
  thumbnail pipeline, which nothing in \<^verbatim>\<open>process_file\<close> catches.
\<close>

definition process_file ::
  "env \<Rightarrow> string \<Rightarrow> file_content \<Rightarrow> string \<Rightarrow> user \<Rightarrow> bool \<Rightarrow> bool \<Rightarrow> bool \<Rightarrow> bool
   \<Rightarrow> (exn + payload \<times> payload option \<times> nat) \<times> event list" where
  "process_file e filename data content_type usr to_base64 make_thumbnail public private =
     (let args = primary_file_args filename data content_type usr to_base64 public private
      in case create_file e args of
           None \<Rightarrow>
             (Inr (Dict [(''Filename'', filename), (''Error'', PROBLEM_SAVING_TO_DB)], None, 500),
              [CreateFile args])
         | Some file \<Rightarrow>
             if make_thumbnail \<and> content_type \<in> IMAGE_EXTENSIONS
             then (case create_thumbnail e data filename content_type to_base64 usr
                          public private of
                     (Inl x, ev) \<Rightarrow> (Inl x, CreateFile args # ev)
                   | (Inr thumbnail, ev) \<Rightarrow>
                       (Inr (Serialized file,
                             Some (case thumbnail of
                                     Some t \<Rightarrow> Serialized t
                                   | None \<Rightarrow> Dict [(''Filename_thumbnail'', filename),
                                                    (''error'', PROBLEM_SAVING_TO_DB)]),
                             201),
                        CreateFile args # ev))
             else (Inr (Serialized file, None, 201), [CreateFile args]))"

subsection \<open>The handlers\<close>

text \<open>
  The loop of \<^verbatim>\<open>on_post\<close>, lines 103 to 123, leaves the handler by the \<^verbatim>\<open>return\<close> of line
  109, or with an exception of \<^verbatim>\<open>process_file\<close>, or it ends (at the \<^verbatim>\<open>break\<close> of its
  first pass, or because the form has no part) with the locals \<^verbatim>\<open>code\<close> and \<^verbatim>\<open>data\<close>
  as the passes have assigned them; \<open>None\<close> is a local that no statement has assigned.
\<close>

record locals =
  local_code :: "nat option"
  local_data :: "payload list option"

datatype loop_exit = Returned outcome | Raised exn | Fell locals

definition on_post_loop ::
  "env \<Rightarrow> config \<Rightarrow> request \<Rightarrow> session \<Rightarrow> part list \<Rightarrow> loop_exit \<times> event list" where
  "on_post_loop e cfg req sess form =
     (case form of
        [] \<Rightarrow> (Fell \<lparr>local_code = None, local_data = None\<rparr>, [])
      | p # _ \<Rightarrow>
          (case process_stream e cfg p of
             (Inl x, ev) \<Rightarrow> (Returned (Response BAD_REQUEST NoData (Some (StrOf x))), ev)
           | (Inr stream_content, ev) \<Rightarrow>
               (case process_file e (part_filename p) stream_content (part_content_type p)
                       (session_user sess) False
                       (check_if_make_thumbnail req)
                       (check_if_public_file req)
                       (check_if_private_file req) of
                  (Inl x, ev') \<Rightarrow> (Raised x, ev @ ev')
                | (Inr (file_data, thumbnail_data, code), ev') \<Rightarrow>
                    (Fell \<lparr>local_code = Some code,
                           local_data = Some (file_data #
                             (case thumbnail_data of None \<Rightarrow> [] | Some t \<Rightarrow> [t]))\<rparr>,
                     ev @ ev'))))"

text \<open>
  \<^verbatim>\<open>on_post\<close>, lines 90 to 125. Line 125, \<^verbatim>\<open>self.response(resp, code, data)\<close>, reads
  \<^verbatim>\<open>code\<close> and then \<^verbatim>\<open>data\<close>; reading a local that was never assigned raises
  \<^verbatim>\<open>UnboundLocalError\<close>.
\<close>

definition on_post :: "env \<Rightarrow> config \<Rightarrow> request \<Rightarrow> int option \<Rightarrow> outcome \<times> event list" where
  "on_post e cfg req ident =
     (if truthy_id ident then (Response METHOD_NOT_ALLOWED NoData None, [])
      else case req_session req of
        None \<Rightarrow> (NoSession, [])
      | Some sess \<Rightarrow>
          (case on_post_loop e cfg req sess (req_form req) of
             (Returned out, ev) \<Rightarrow> (out, ev)
           | (Raised x, ev) \<Rightarrow> (Escaped x, ev)
           | (Fell l, ev) \<Rightarrow>
               (case local_code l of
                  None \<Rightarrow> (Escaped (UnboundLocalError ''code''), ev)
                | Some code \<Rightarrow>
                    (case local_data l of
                       None \<Rightarrow> (Escaped (UnboundLocalError ''data''), ev)
                     | Some data \<Rightarrow> (Response code (Many data) None, ev)))))"

definition decode_base64_file :: "env \<Rightarrow> string \<Rightarrow> (exn + bytes) \<times> event list" where
  "decode_base64_file e base64_info = (b64decode e base64_info, [B64Decode base64_info])"

definition get_mimetype :: "env \<Rightarrow> bytes \<Rightarrow> (exn + string) \<times> event list" where
  "get_mimetype e data =
     (case filetype_guess e data of
        None \<Rightarrow> (Inl AttributeError, [Guess data])
      | Some mime \<Rightarrow> (Inr mime, [Guess data]))"

definition fields_needed :: string where
  "fields_needed = [CHR 0x27] @ ''file_name'' @ [CHR 0x27] @ '' and ''
                   @ [CHR 0x27] @ ''base64'' @ [CHR 0x27] @ '' needed''"

text \<open>
  \<^verbatim>\<open>get_base64_info\<close>, lines 257 to 271: the source returns the triple
  \<^verbatim>\<open>(None, None, error_message)\<close> or \<^verbatim>\<open>(base64_info, file_name, None)\<close>; here the left
  summand carries the error message and the right one the pair.
\<close>

definition get_base64_info :: "config \<Rightarrow> json_body \<Rightarrow> message + string \<times> string" where
  "get_base64_info cfg body =
     (case body of
        JsonError exc \<Rightarrow> Inl (Text exc)
      | JsonObject data \<Rightarrow>
          (case (data ''file_name'', data ''base64'') of
             (Some file_name, Some base64_info) \<Rightarrow>
               if file_name = [] \<or> base64_info = [] then Inl (Text fields_needed)
               else if get_base64_file_length base64_info > of_int (max_file_size cfg)
                    then Inl (Text (''The file '' @ file_name @ '' is larger than 4mb.''))
                    else Inr (base64_info, file_name)
           | _ \<Rightarrow> Inl (Text fields_needed)))"

text \<open>\<^verbatim>\<open>on_post_base64\<close>, lines 127 to 166.\<close>

definition on_post_base64 :: "env \<Rightarrow> config \<Rightarrow> request \<Rightarrow> int option \<Rightarrow> outcome \<times> event list" where
  "on_post_base64 e cfg req ident =
     (if truthy_id ident then (Response METHOD_NOT_ALLOWED NoData None, [])
      else case req_session req of
        None \<Rightarrow> (NoSession, [])
      | Some sess \<Rightarrow>
          (case get_base64_info cfg (req_body req) of
             Inl error_message \<Rightarrow> (Response BAD_REQUEST NoData (Some error_message), [])
           | Inr (base64_info, file_name) \<Rightarrow>
               (case decode_base64_file e base64_info of
                  (Inl x, ev1) \<Rightarrow> (Escaped x, ev1)
                | (Inr base64_decoded, ev1) \<Rightarrow>
                    (case get_mimetype e base64_decoded of
                       (Inl x, ev2) \<Rightarrow> (Escaped x, ev1 @ ev2)
                     | (Inr mimetype, ev2) \<Rightarrow>
                         (case check_if_valid_content_type cfg mimetype of
                            Inl x \<Rightarrow> (Response BAD_REQUEST NoData (Some (StrOf x)), ev1 @ ev2)
                          | Inr _ \<Rightarrow>
                              (case process_file e file_name (Bytes base64_decoded) mimetype
                                      (session_user sess) False
                                      (check_if_make_thumbnail req)
                                      (check_if_public_file req)
                                      (check_if_private_file req) of
                                 (Inl x, ev3) \<Rightarrow> (Escaped x, ev1 @ ev2 @ ev3)
                               | (Inr (file, thumbnail, code), ev3) \<Rightarrow>
                                   (Response code
                                      (case thumbnail of
                                         None \<Rightarrow> One file
                                       | Some t \<Rightarrow> Many [file, t])
                                      None,
                                    ev1 @ ev2 @ ev3)))))))"

text \<open>The content handed to the first \<^verbatim>\<open>create_file\<close> call of a run, if there is one.\<close>

fun primary_content :: "event list \<Rightarrow> file_content option" where
  "primary_content [] = None"
| "primary_content (CreateFile args # _) = Some (arg_file_content args)"
| "primary_content (_ # ev) = primary_content ev"

subsection \<open>Example inputs\<close>

text \<open>
  A small environment on which the definitions can be run: a decoder that knows four
  encodings (of the first bytes of a GIF, a PNG and a PDF file, and of the text \<^verbatim>\<open>hello\<close>)
  and rejects every other string, a type guesser that knows the three file headers, image
  pipelines that open the PNG header only, and a \<^verbatim>\<open>create_file\<close> that always succeeds.
\<close>

definition gif_bytes :: bytes where
  "gif_bytes = [0x47, 0x49, 0x46, 0x38, 0x39, 0x61]"

definition png_bytes :: bytes where
  "png_bytes = [0x89, 0x50, 0x4E, 0x47, 0x0D, 0x0A, 0x1A, 0x0A]"

definition pdf_bytes :: bytes where
  "pdf_bytes = [0x25, 0x50, 0x44, 0x46]"

definition text_bytes :: bytes where
  "text_bytes = [0x68, 0x65, 0x6C, 0x6C, 0x6F]"


definition example_env :: env where
  "example_env =
     \<lparr>b64decode = (\<lambda>s. if s = ''R0lGODlh'' then Inr gif_bytes
                       else if s = ''iVBORw0KGgo='' then Inr png_bytes
                       else if s = ''JVBERg=='' then Inr pdf_bytes
                       else if s = ''aGVsbG8='' then Inr text_bytes
                       else Inl BinasciiError),
      filetype_guess = (\<lambda>b. if b = gif_bytes then Some ''image/gif''
                            else if b = png_bytes then Some ''image/png''
                            else if b = pdf_bytes then Some ''application/pdf''
                            else None),
      pil_save_optimized = (\<lambda>b. if b = png_bytes then Inr (png_bytes @ [0])
                                else Inl UnidentifiedImageError),
      pil_thumbnail = (\<lambda>b. if b = png_bytes \<or> b = png_bytes @ [0] then Inr (png_bytes @ [1])
                           else Inl UnidentifiedImageError),
      create_file = (\<lambda>args. if arg_is_thumbnail args = 1 then Some (File 2) else Some (File 1))\<rparr>"

definition example_config :: config where
  "example_config =
     \<lparr>accepted_files = [''image/jpeg'', ''image/png'', ''application/pdf''],
      max_file_size = 4000000\<rparr>"

definition png_part :: part where
  "png_part = \<lparr>part_content_type = ''image/png'', part_filename = ''cat.png'',
               part_stream = [[0x89, 0x50, 0x4E], [0x47, 0x0D, 0x0A, 0x1A, 0x0A]]\<rparr>"

definition pdf_part :: part where
  "pdf_part = \<lparr>part_content_type = ''application/pdf'', part_filename = ''doc.pdf'',
               part_stream = [[0x25, 0x50], [0x44, 0x46]]\<rparr>"

definition gif_part :: part where
  "gif_part = \<lparr>part_content_type = ''image/gif'', part_filename = ''anim.gif'',
               part_stream = [[0x47, 0x49, 0x46], [0x38, 0x39, 0x61]]\<rparr>"

text \<open>
  Two variants of it: one whose \<^verbatim>\<open>create_file\<close> reports failure for every file, and one
  whose \<^verbatim>\<open>create_file\<close> reports failure for thumbnails only.
\<close>

definition failing_env :: env where
  "failing_env = example_env\<lparr>create_file := (\<lambda>args. None)\<rparr>"

definition thumbnail_failing_env :: env where
  "thumbnail_failing_env =
     example_env\<lparr>create_file :=
       (\<lambda>args. if arg_is_thumbnail args = 1 then None else Some (File 1))\<rparr>"

definition small_config :: config where
  "small_config = example_config\<lparr>max_file_size := 3\<rparr>"

text \<open>
  Requests of a logged-in user that ask for a thumbnail: a multipart request with the given
  parts, and a base64 request with the given envelope.
\<close>

definition multipart_request :: "part list \<Rightarrow> request" where
  "multipart_request form =
     \<lparr>req_params = [''thumbnail'' \<mapsto> ''True''],
      req_session = Some (Session (User 1)),
      req_form = form,
      req_body = JsonError ''Expecting value''\<rparr>"

definition base64_request :: "string \<Rightarrow> string \<Rightarrow> request" where
  "base64_request file_name base64_info =
     \<lparr>req_params = [''thumbnail'' \<mapsto> ''True''],
      req_session = Some (Session (User 1)),
      req_form = [],
      req_body = JsonObject [''file_name'' \<mapsto> file_name, ''base64'' \<mapsto> base64_info]\<rparr>"

section \<open>Properties\<close>

subsection \<open>The decoded-length estimate\<close>

lemma str_count_empty_slice: "str_count s c (-1) (-5) = 0"
  by (simp add: str_count_def adjust_index_def Let_def)

lemma get_base64_file_length_eq:
  "get_base64_file_length s = of_nat (length s * 3) / 4"
  by (simp add: get_base64_file_length_def str_count_empty_slice)

lemma length_encode_to_base64:
  "length (encode_to_base64 bs) = 4 * ((length bs + 2) div 3)"
proof (induction bs rule: encode_to_base64.induct)
  case (4 a b c rest)
  have "(length rest + 5) div 3 = Suc ((length rest + 2) div 3)"
    by arith
  with 4 show ?case
    by (simp add: add.commute)
qed simp_all

lemma get_base64_file_length_encoded:
  "get_base64_file_length (encode_to_base64 bs) = of_nat (3 * ((length bs + 2) div 3))"
  by (simp add: get_base64_file_length_eq length_encode_to_base64)

text \<open>
  C1. The claim: on a validly-padded base64 string whose decoded length is \<open>N\<close>,
  \<^verbatim>\<open>get_base64_file_length\<close> returns \<open>N\<close>, that is three quarters of the length minus the
  number of padding characters at the end. The slice \<^verbatim>\<open>[-1:-5]\<close> given to \<^verbatim>\<open>count\<close> is
  empty for every string, so nothing is subtracted: the one byte \<open>0x41\<close> encodes to
  \<^verbatim>\<open>QQ==\<close>, and the estimate for \<^verbatim>\<open>QQ==\<close> is 3, not 1.
\<close>

theorem get_base64_file_length_one_byte:
  "encode_to_base64 [0x41] = ''QQ=='' \<and> get_base64_file_length ''QQ=='' = 3"
  by (simp add: b64_char_def b64_alphabet_def get_base64_file_length_def str_count_def
      adjust_index_def)

subsection \<open>The thumbnail's name\<close>

lemma str_split_not_Nil: "str_split sep s \<noteq> []"
  by (induction s) (auto split: list.splits)

lemma str_split_no_sep:
  "sep \<notin> set s \<Longrightarrow> str_split sep s = [s]"
  by (induction s) auto

lemma str_split_append_sep:
  "sep \<notin> set a \<Longrightarrow> str_split sep (a @ sep # b) = a # str_split sep b"
  by (induction a) auto

text \<open>
  On a name without a dot, and on a name with exactly one dot, the name the code derives
  is the one the specification describes.
\<close>

lemma thumbnail_name_no_dot:
  "CHR ''.'' \<notin> set filename \<Longrightarrow> thumbnail_name filename = filename @ ''_thumbnail''"
  by (simp add: thumbnail_name_def str_split_no_sep)

lemma thumbnail_name_one_dot:
  assumes "CHR ''.'' \<notin> set base" and "CHR ''.'' \<notin> set ext"
  shows "thumbnail_name (base @ ''.'' @ ext) = base @ ''_thumbnail'' @ ''.'' @ ext"
  using assms by (simp add: thumbnail_name_def str_split_append_sep str_split_no_sep)

lemma spec_thumbnail_name_one_dot:
  assumes "CHR ''.'' \<notin> set base" and "CHR ''.'' \<notin> set ext"
  shows "spec_thumbnail_name (base @ ''.'' @ ext) = base @ ''_thumbnail'' @ ''.'' @ ext"
proof -
  have "takeWhile (\<lambda>c. c \<noteq> CHR ''.'') (rev ext @ CHR ''.'' # rev base) = rev ext"
    using assms(2) by (auto simp: takeWhile_tail)
  then have "spec_extension (base @ ''.'' @ ext) = ext"
    by (simp add: spec_extension_def)
  then show ?thesis
    by (simp add: spec_thumbnail_name_def spec_basename_def)
qed

lemma thumbnail_name_agrees_up_to_one_dot:
  assumes "count_list filename CHR ''.'' \<le> 1"
  shows "thumbnail_name filename = spec_thumbnail_name filename"
proof (cases "CHR ''.'' \<in> set filename")
  case False
  then show ?thesis
    by (simp add: thumbnail_name_no_dot spec_thumbnail_name_def)
next
  case True
  then obtain base ext where f: "filename = base @ CHR ''.'' # ext" and b: "CHR ''.'' \<notin> set base"
    by (auto dest: split_list_first)
  with assms have "count_list ext CHR ''.'' = 0"
    by simp
  then have e: "CHR ''.'' \<notin> set ext"
    by (simp add: count_list_0_iff)
  from thumbnail_name_one_dot [OF b e] spec_thumbnail_name_one_dot [OF b e] f
  show ?thesis by simp
qed

text \<open>
  C3. The claim: for every file name the thumbnail is named
  \<^verbatim>\<open><basename>_thumbnail.<ext>\<close> when the name has an extension, and
  \<^verbatim>\<open><basename>_thumbnail\<close> when it has none. The code keeps the text before the first dot
  and the text between the first and the second dot: for \<^verbatim>\<open>a.b.jpg\<close> it derives
  \<^verbatim>\<open>a_thumbnail.b\<close>, where the name the claim describes is \<^verbatim>\<open>a.b_thumbnail.jpg\<close>.
\<close>

theorem thumbnail_name_two_dots:
  "thumbnail_name ''a.b.jpg'' = ''a_thumbnail.b''
   \<and> spec_thumbnail_name ''a.b.jpg'' = ''a.b_thumbnail.jpg''"
  by (simp add: thumbnail_name_def spec_thumbnail_name_def spec_basename_def spec_extension_def)

subsection \<open>The streaming read\<close>

text \<open>
  A read returns a prefix of what the stream still holds, at most as long as asked for,
  and it is empty only when the stream holds no more bytes.
\<close>

lemma stream_read_concat:
  "fst (stream_read n s) @ concat (snd (stream_read n s)) = concat s"
  by (induction s) auto

lemma stream_read_length: "length (fst (stream_read n s)) \<le> n"
  by (induction s) auto

lemma stream_read_nonempty:
  "concat s \<noteq> [] \<Longrightarrow> 0 < n \<Longrightarrow> fst (stream_read n s) \<noteq> []"
  by (induction s) auto

lemma read_loop_within:
  "int (r + length (concat s)) \<le> m \<Longrightarrow>
   fst (read_loop m s r d) = Inr (d @ butlast (snd (read_loop m s r d)))
   \<and> last (snd (read_loop m s r d)) = []
   \<and> snd (read_loop m s r d) \<noteq> []
   \<and> concat (snd (read_loop m s r d)) = concat s"
proof (induction m s r d rule: read_loop.induct)
  case (1 m s r d)
  let ?chunk = "fst (stream_read CHUNK_SIZE s)"
  let ?s' = "snd (stream_read CHUNK_SIZE s)"
  have cc: "?chunk @ concat ?s' = concat s" by (rule stream_read_concat)
  show ?case
  proof (cases "?chunk = []")
    case True
    have "concat s = []"
    proof (rule ccontr)
      assume "concat s \<noteq> []"
      then have "?chunk \<noteq> []" by (rule stream_read_nonempty) (simp add: CHUNK_SIZE_def)
      with True show False by simp
    qed
    moreover have "read_loop m s r d = (Inr d, [[]])"
      using True by (subst read_loop.simps) (simp add: Let_def)
    ultimately show ?thesis by simp
  next
    case False
    have len: "length ?chunk + length (concat ?s') = length (concat s)"
      using arg_cong [OF cc, of length] by simp
    then have le: "int (r + length ?chunk + length (concat ?s')) \<le> m"
      using 1(2) by simp
    then have notgt: "\<not> int (r + length ?chunk) > m" by simp
    note IH = 1(1) [OF refl refl False notgt le]
    obtain res reads where rl: "read_loop m ?s' (r + length ?chunk) (d @ [?chunk]) = (res, reads)"
      by (cases "read_loop m ?s' (r + length ?chunk) (d @ [?chunk])")
    have step: "read_loop m s r d = (res, ?chunk # reads)"
      using False notgt rl by (subst read_loop.simps) (simp add: Let_def)
    from IH rl have "res = Inr (d @ [?chunk] @ butlast reads)" "last reads = []" "reads \<noteq> []"
      "concat reads = concat ?s'" by simp_all
    then show ?thesis using step cc by simp
  qed
qed

lemma read_loop_exceeds:
  "int r \<le> m \<Longrightarrow> m < int (r + length (concat s)) \<Longrightarrow>
   fst (read_loop m s r d) = Inl FileSizeGreaterThanAllowed
   \<and> snd (read_loop m s r d) \<noteq> []
   \<and> take (length (concat (snd (read_loop m s r d)))) (concat s) = concat (snd (read_loop m s r d))
   \<and> m < int (r + length (concat (snd (read_loop m s r d))))
   \<and> int (r + length (concat (butlast (snd (read_loop m s r d))))) \<le> m
   \<and> length (last (snd (read_loop m s r d))) \<le> CHUNK_SIZE"
proof (induction m s r d rule: read_loop.induct)
  case (1 m s r d)
  let ?chunk = "fst (stream_read CHUNK_SIZE s)"
  let ?s' = "snd (stream_read CHUNK_SIZE s)"
  have cc: "?chunk @ concat ?s' = concat s" by (rule stream_read_concat)
  have len: "length ?chunk + length (concat ?s') = length (concat s)"
    using arg_cong [OF cc, of length] by simp
  have "0 < length (concat s)" using 1(2,3) by linarith
  then have "concat s \<noteq> []" by simp
  then have ne: "?chunk \<noteq> []"
    by (rule stream_read_nonempty) (simp add: CHUNK_SIZE_def)
  have bound: "length ?chunk \<le> CHUNK_SIZE" by (rule stream_read_length)
  show ?case
  proof (cases "int (r + length ?chunk) > m")
    case True
    have step: "read_loop m s r d = (Inl FileSizeGreaterThanAllowed, [?chunk])"
      using ne True by (subst read_loop.simps) (simp add: Let_def)
    have "take (length ?chunk) (concat s) = ?chunk"
      by (subst cc [symmetric]) simp
    then show ?thesis using step ne True 1(2) bound by simp
  next
    case False
    have r': "int (r + length ?chunk) \<le> m" using False by simp
    have gt': "m < int (r + length ?chunk + length (concat ?s'))" using 1(3) len by simp
    note IH = 1(1) [OF refl refl ne False r' gt']
    obtain res reads where rl: "read_loop m ?s' (r + length ?chunk) (d @ [?chunk]) = (res, reads)"
      by (cases "read_loop m ?s' (r + length ?chunk) (d @ [?chunk])")
    have step: "read_loop m s r d = (res, ?chunk # reads)"
      using ne False rl by (subst read_loop.simps) (simp add: Let_def)
    from IH rl have A: "res = Inl FileSizeGreaterThanAllowed" "reads \<noteq> []"
      "take (length (concat reads)) (concat ?s') = concat reads"
      "m < int (r + length ?chunk + length (concat reads))"
      "int (r + length ?chunk + length (concat (butlast reads))) \<le> m"
      "length (last reads) \<le> CHUNK_SIZE" by simp_all
    have "take (length ?chunk + length (concat reads)) (concat s) = ?chunk @ concat reads"
      by (subst cc [symmetric]) (simp add: A(3))
    then show ?thesis using step A ne by (simp add: add.assoc)
  qed
qed

lemma read_loop_within_eq:
  assumes "int (length (concat s)) \<le> m"
  shows "\<exists>chunks. read_loop m s 0 [] = (Inr chunks, chunks @ [[]]) \<and> concat chunks = concat s"
proof -
  let ?reads = "snd (read_loop m s 0 [])"
  from assms have "int (0 + length (concat s)) \<le> m" by simp
  from read_loop_within [OF this, of "[]"]
  have a: "fst (read_loop m s 0 []) = Inr (butlast ?reads)" and b: "last ?reads = []"
    and c: "?reads \<noteq> []" and d: "concat ?reads = concat s" by simp_all
  from b c have e: "?reads = butlast ?reads @ [[]]"
    by (metis append_butlast_last_id)
  have "concat (butlast ?reads) = concat ?reads"
    by (subst (2) e) simp
  with a d e show ?thesis
    by (metis prod.collapse)
qed

text \<open>
  C5. A streamed upload of more than \<^verbatim>\<open>max_file_size\<close> bytes (the limit being a byte
  count, so not negative) makes the read loop raise \<^verbatim>\<open>FileSizeGreaterThanAllowed\<close>, however
  the bytes are split into chunks. The chunks read are a prefix of the upload; with the last
  of them the count exceeds the limit and without it the count does not, so the loop stops at
  the first chunk that crosses the limit, at most one chunk beyond it. For an accepted content
  type \<^verbatim>\<open>process_stream\<close> ends with that exception and no data.
\<close>

theorem streaming_read_over_limit:
  assumes "0 \<le> max_file_size cfg"
    and "max_file_size cfg < int (length (concat (part_stream p)))"
  shows "\<exists>reads. read_loop (max_file_size cfg) (part_stream p) 0 []
                   = (Inl FileSizeGreaterThanAllowed, reads)
          \<and> reads \<noteq> []
          \<and> take (length (concat reads)) (concat (part_stream p)) = concat reads
          \<and> max_file_size cfg < int (length (concat reads))
          \<and> int (length (concat (butlast reads))) \<le> max_file_size cfg
          \<and> length (last reads) \<le> CHUNK_SIZE
          \<and> (part_content_type p \<in> set (accepted_files cfg) \<longrightarrow>
               process_stream e cfg p = (Inl FileSizeGreaterThanAllowed, map StreamRead reads))"
proof -
  let ?m = "max_file_size cfg" and ?s = "part_stream p"
  let ?reads = "snd (read_loop ?m ?s 0 [])"
  from assms have "int 0 \<le> ?m" and "?m < int (0 + length (concat ?s))" by simp_all
  from read_loop_exceeds [OF this, of "[]"]
  have A: "fst (read_loop ?m ?s 0 []) = Inl FileSizeGreaterThanAllowed" "?reads \<noteq> []"
    "take (length (concat ?reads)) (concat ?s) = concat ?reads"
    "?m < int (length (concat ?reads))"
    "int (length (concat (butlast ?reads))) \<le> ?m"
    "length (last ?reads) \<le> CHUNK_SIZE" by simp_all
  from A(1) have rl: "read_loop ?m ?s 0 [] = (Inl FileSizeGreaterThanAllowed, ?reads)"
    by (metis prod.collapse)
  have "part_content_type p \<in> set (accepted_files cfg) \<Longrightarrow>
        process_stream e cfg p = (Inl FileSizeGreaterThanAllowed, map StreamRead ?reads)"
    by (subst process_stream_def, subst rl) (simp add: check_if_valid_content_type_def)
  with rl A show ?thesis by blast
qed

theorem streaming_read_over_limit_witness:
  "0 \<le> max_file_size small_config
   \<and> max_file_size small_config < int (length (concat (part_stream pdf_part)))
   \<and> part_content_type pdf_part \<in> set (accepted_files small_config)
   \<and> fst (process_stream example_env small_config pdf_part)
       = Inl FileSizeGreaterThanAllowed"
  using streaming_read_over_limit [of small_config pdf_part example_env]
  by (auto simp: small_config_def example_config_def pdf_part_def)

text \<open>
  C6. A streamed upload of at most \<^verbatim>\<open>max_file_size\<close> bytes is read to its end, however
  the bytes are split into chunks: the loop returns the chunks it read, their concatenation
  is the upload byte for byte, and the last read is the empty one that ends the loop. For
  an accepted content type outside the image set \<^verbatim>\<open>process_stream\<close> returns these bytes;
  for one in the image set it returns what \<^verbatim>\<open>compress_image\<close> makes of exactly these bytes.
\<close>

theorem streaming_read_within_limit:
  assumes "int (length (concat (part_stream p))) \<le> max_file_size cfg"
  shows "(\<exists>chunks. read_loop (max_file_size cfg) (part_stream p) 0 [] = (Inr chunks, chunks @ [[]])
            \<and> concat chunks = concat (part_stream p))
         \<and> (part_content_type p \<in> set (accepted_files cfg) \<longrightarrow>
              part_content_type p \<notin> IMAGE_EXTENSIONS \<longrightarrow>
              fst (process_stream e cfg p) = Inr (Bytes (concat (part_stream p))))
         \<and> (part_content_type p \<in> set (accepted_files cfg) \<longrightarrow>
              part_content_type p \<in> IMAGE_EXTENSIONS \<longrightarrow>
              fst (process_stream e cfg p) = fst (compress_image e (concat (part_stream p))))"
proof -
  from read_loop_within_eq [OF assms] obtain chunks where
    rl: "read_loop (max_file_size cfg) (part_stream p) 0 [] = (Inr chunks, chunks @ [[]])"
    and cc: "concat chunks = concat (part_stream p)" by blast
  have "part_content_type p \<in> set (accepted_files cfg) \<Longrightarrow>
        part_content_type p \<notin> IMAGE_EXTENSIONS \<Longrightarrow>
        fst (process_stream e cfg p) = Inr (Bytes (concat (part_stream p)))"
    by (subst process_stream_def, subst rl) (simp add: check_if_valid_content_type_def cc)
  moreover have "part_content_type p \<in> set (accepted_files cfg) \<Longrightarrow>
        part_content_type p \<in> IMAGE_EXTENSIONS \<Longrightarrow>
        fst (process_stream e cfg p) = fst (compress_image e (concat (part_stream p)))"
    by (subst process_stream_def, subst rl)
       (simp add: check_if_valid_content_type_def cc split: prod.splits)
  ultimately show ?thesis using rl cc by blast
qed

theorem streaming_read_within_limit_witness:
  "int (length (concat (part_stream pdf_part))) \<le> max_file_size example_config
   \<and> part_content_type pdf_part \<in> set (accepted_files example_config)
   \<and> part_content_type pdf_part \<notin> IMAGE_EXTENSIONS
   \<and> fst (process_stream example_env example_config pdf_part) = Inr (Bytes [0x25, 0x50, 0x44, 0x46])
   \<and> int (length (concat (part_stream png_part))) \<le> max_file_size example_config
   \<and> part_content_type png_part \<in> set (accepted_files example_config)
   \<and> part_content_type png_part \<in> IMAGE_EXTENSIONS
   \<and> fst (process_stream example_env example_config png_part)
       = Inr (BytesIO [0x89, 0x50, 0x4E, 0x47, 0x0D, 0x0A, 0x1A, 0x0A, 0])"
  using streaming_read_within_limit [of pdf_part example_config example_env]
    streaming_read_within_limit [of png_part example_config example_env]
  by (simp add: example_config_def example_env_def pdf_part_def png_part_def IMAGE_EXTENSIONS_def
      compress_image_def png_bytes_def)

subsection \<open>Content-type validation\<close>

text \<open>
  C2, as claimed: on both paths a disallowed content type is rejected before any payload
  byte is read or decoded. On the base64 path the type is the one guessed from the decoded
  bytes, so the decoding comes first: the request below is rejected for its type
  \<^verbatim>\<open>image/gif\<close> after its base64 string has been decoded and its bytes inspected.
\<close>

theorem on_post_base64_decodes_before_check:
  "on_post_base64 example_env example_config (base64_request ''anim.gif'' ''R0lGODlh'') None
   = (Response 400 NoData
        (Some (StrOf (ContentTypeNotAllowed ''image/gif''
                        [''image/jpeg'', ''image/png'', ''application/pdf'']))),
      [B64Decode ''R0lGODlh'', Guess [0x47, 0x49, 0x46, 0x38, 0x39, 0x61]])"
  by (simp add: on_post_base64_def base64_request_def get_base64_info_def
      get_base64_file_length_eq example_config_def example_env_def decode_base64_file_def
      get_mimetype_def check_if_valid_content_type_def gif_bytes_def BAD_REQUEST_def)

text \<open>
  C2, amended. On the stream path a disallowed content type makes \<^verbatim>\<open>process_stream\<close> raise
  \<^verbatim>\<open>ContentTypeNotAllowed\<close> without a single read of the stream, and \<^verbatim>\<open>on_post\<close> answers
  400 with that error. On the base64 path the string is decoded and the type guessed from
  the bytes; a disallowed guessed type is then answered with 400 and the same error, and
  nothing else has been done: nothing is compressed and no file is created.
\<close>

theorem content_type_rejection:
  "(part_content_type p \<notin> set (accepted_files cfg) \<longrightarrow>
      process_stream e cfg p
      = (Inl (ContentTypeNotAllowed (part_content_type p) (accepted_files cfg)), []))
   \<and> (\<not> truthy_id ident \<longrightarrow> req_session mreq = Some sess \<longrightarrow> req_form mreq = p # ps \<longrightarrow>
      part_content_type p \<notin> set (accepted_files cfg) \<longrightarrow>
      on_post e cfg mreq ident
      = (Response BAD_REQUEST NoData
           (Some (StrOf (ContentTypeNotAllowed (part_content_type p) (accepted_files cfg)))),
         []))
   \<and> (\<not> truthy_id ident \<longrightarrow> req_session req = Some sess \<longrightarrow>
      get_base64_info cfg (req_body req) = Inr (base64_info, file_name) \<longrightarrow>
      b64decode e base64_info = Inr decoded \<longrightarrow>
      filetype_guess e decoded = Some mimetype \<longrightarrow>
      mimetype \<notin> set (accepted_files cfg) \<longrightarrow>
      on_post_base64 e cfg req ident
      = (Response BAD_REQUEST NoData
           (Some (StrOf (ContentTypeNotAllowed mimetype (accepted_files cfg)))),
         [B64Decode base64_info, Guess decoded]))"
  by (simp add: process_stream_def on_post_def on_post_loop_def on_post_base64_def
      check_if_valid_content_type_def decode_base64_file_def get_mimetype_def)

theorem content_type_rejection_witness:
  "process_stream example_env example_config gif_part
   = (Inl (ContentTypeNotAllowed ''image/gif'' [''image/jpeg'', ''image/png'', ''application/pdf'']), [])
   \<and> on_post example_env example_config (multipart_request [gif_part]) None
   = (Response BAD_REQUEST NoData
        (Some (StrOf (ContentTypeNotAllowed ''image/gif''
                        [''image/jpeg'', ''image/png'', ''application/pdf'']))),
      [])
   \<and> on_post_base64 example_env example_config (base64_request ''anim.gif'' ''R0lGODlh'') None
   = (Response BAD_REQUEST NoData
        (Some (StrOf (ContentTypeNotAllowed ''image/gif''
                        [''image/jpeg'', ''image/png'', ''application/pdf'']))),
      [B64Decode ''R0lGODlh'', Guess gif_bytes])"
  using content_type_rejection [of gif_part example_config example_env None
      "multipart_request [gif_part]" "Session (User 1)" "[]" "base64_request ''anim.gif'' ''R0lGODlh''"
      "''R0lGODlh''" "''anim.gif''" gif_bytes "''image/gif''"]
  by (simp add: gif_part_def example_config_def multipart_request_def base64_request_def
      get_base64_info_def get_base64_file_length_eq example_env_def)

subsection \<open>Exceptions that leave the base64 handler\<close>

text \<open>
  C4. The claim: a base64 string that cannot be decoded ends in an error response of the
  handler. In \<^verbatim>\<open>on_post_base64\<close> the call of \<^verbatim>\<open>decode_base64_file\<close> (line 141) stands
  outside every \<^verbatim>\<open>try\<close>, so the exception of the decoder leaves the handler and no
  response is written; \<^verbatim>\<open>on_post\<close>, the handler of the stream path, catches every exception
  of its reading step and answers 400.
\<close>

theorem on_post_base64_decode_error_escapes:
  assumes "\<not> truthy_id ident" and "req_session req = Some sess"
    and "get_base64_info cfg (req_body req) = Inr (base64_info, file_name)"
    and "b64decode e base64_info = Inl x"
  shows "on_post_base64 e cfg req ident = (Escaped x, [B64Decode base64_info])"
  using assms by (simp add: on_post_base64_def decode_base64_file_def)

theorem on_post_base64_decode_error_escapes_witness:
  "\<not> truthy_id None
   \<and> req_session (base64_request ''cat.png'' ''QQ='') = Some (Session (User 1))
   \<and> get_base64_info example_config (req_body (base64_request ''cat.png'' ''QQ=''))
       = Inr (''QQ='', ''cat.png'')
   \<and> b64decode example_env ''QQ='' = Inl BinasciiError
   \<and> on_post_base64 example_env example_config (base64_request ''cat.png'' ''QQ='') None
       = (Escaped BinasciiError, [B64Decode ''QQ=''])"
  using on_post_base64_decode_error_escapes [of None "base64_request ''cat.png'' ''QQ=''"
      "Session (User 1)" example_config "''QQ=''" "''cat.png''" example_env BinasciiError]
  by (simp add: base64_request_def get_base64_info_def get_base64_file_length_eq
      example_config_def example_env_def)

text \<open>
  C10. When the decoded bytes of a base64 upload are of no type \<^verbatim>\<open>filetype.guess\<close>
  knows, \<^verbatim>\<open>get_mimetype\<close> reads \<^verbatim>\<open>.mime\<close> of \<^verbatim>\<open>None\<close>; the \<^verbatim>\<open>AttributeError\<close> is raised
  at line 142, before the \<^verbatim>\<open>try\<close> of line 144, and leaves the handler: no response, and so
  no content-type error response, is written.
\<close>

theorem on_post_base64_unrecognized_bytes:
  assumes "\<not> truthy_id ident" and "req_session req = Some sess"
    and "get_base64_info cfg (req_body req) = Inr (base64_info, file_name)"
    and "b64decode e base64_info = Inr decoded"
    and "filetype_guess e decoded = None"
  shows "on_post_base64 e cfg req ident
         = (Escaped AttributeError, [B64Decode base64_info, Guess decoded])"
  using assms by (simp add: on_post_base64_def decode_base64_file_def get_mimetype_def)

theorem on_post_base64_unrecognized_bytes_witness:
  "\<not> truthy_id None
   \<and> req_session (base64_request ''notes.txt'' ''aGVsbG8='') = Some (Session (User 1))
   \<and> get_base64_info example_config (req_body (base64_request ''notes.txt'' ''aGVsbG8=''))
       = Inr (''aGVsbG8='', ''notes.txt'')
   \<and> b64decode example_env ''aGVsbG8='' = Inr text_bytes
   \<and> filetype_guess example_env text_bytes = None
   \<and> on_post_base64 example_env example_config (base64_request ''notes.txt'' ''aGVsbG8='') None
       = (Escaped AttributeError, [B64Decode ''aGVsbG8='', Guess text_bytes])"
  using on_post_base64_unrecognized_bytes [of None "base64_request ''notes.txt'' ''aGVsbG8=''"
      "Session (User 1)" example_config "''aGVsbG8=''" "''notes.txt''" example_env text_bytes]
  by (simp add: base64_request_def get_base64_info_def get_base64_file_length_eq
      example_config_def example_env_def text_bytes_def gif_bytes_def png_bytes_def pdf_bytes_def)

subsection \<open>Persistence failures\<close>

text \<open>
  C7. When the \<^verbatim>\<open>create_file\<close> call for the primary file reports failure,
  \<^verbatim>\<open>process_file\<close> returns (it does not raise) the payload with the file name and the
  error text, no thumbnail and the status 500, and that call is its only effect: the
  thumbnail is not attempted. When the primary file is created, a thumbnail is requested for
  an image type, the thumbnail image is produced and the \<^verbatim>\<open>create_file\<close> call for the
  thumbnail reports failure, the result holds the serialized primary file, an error entry
  for the thumbnail and the status 201.
\<close>

theorem process_file_persistence_failure:
  "(create_file e (primary_file_args filename data content_type usr to_b64 public private) = None \<longrightarrow>
      process_file e filename data content_type usr to_b64 make_thumbnail public private
      = (Inr (Dict [(''Filename'', filename), (''Error'', ''problem saving to db'')], None, 500),
         [CreateFile (primary_file_args filename data content_type usr to_b64 public private)]))
   \<and> (create_file e (primary_file_args filename data content_type usr to_b64 public private) = Some file \<longrightarrow>
      make_thumbnail \<longrightarrow> content_type \<in> IMAGE_EXTENSIONS \<longrightarrow>
      pil_thumbnail e (content_bytes data) = Inr small \<longrightarrow>
      create_file e (thumbnail_file_args filename (BytesIO small) content_type usr to_b64 public) = None \<longrightarrow>
      process_file e filename data content_type usr to_b64 make_thumbnail public private
      = (Inr (Serialized file,
              Some (Dict [(''Filename_thumbnail'', filename), (''error'', ''problem saving to db'')]),
              201),
         [CreateFile (primary_file_args filename data content_type usr to_b64 public private),
          ThumbnailImage (content_bytes data),
          CreateFile (thumbnail_file_args filename (BytesIO small) content_type usr to_b64 public)]))"
  by (simp add: process_file_def create_thumbnail_def create_thumbnail_image_def
      PROBLEM_SAVING_TO_DB_def Let_def)

theorem process_file_persistence_failure_witness:
  "process_file failing_env ''cat.png'' (Bytes png_bytes) ''image/png'' (User 1) False True False False
   = (Inr (Dict [(''Filename'', ''cat.png''), (''Error'', ''problem saving to db'')], None, 500),
      [CreateFile (primary_file_args ''cat.png'' (Bytes png_bytes) ''image/png'' (User 1) False False False)])
   \<and> process_file thumbnail_failing_env ''cat.png'' (Bytes png_bytes) ''image/png'' (User 1) False True False False
   = (Inr (Serialized (File 1),
           Some (Dict [(''Filename_thumbnail'', ''cat.png''), (''error'', ''problem saving to db'')]),
           201),
      [CreateFile (primary_file_args ''cat.png'' (Bytes png_bytes) ''image/png'' (User 1) False False False),
       ThumbnailImage png_bytes,
       CreateFile (thumbnail_file_args ''cat.png'' (BytesIO (png_bytes @ [1])) ''image/png'' (User 1) False False)])"
  using process_file_persistence_failure [of failing_env "''cat.png''" "Bytes png_bytes"
      "''image/png''" "User 1" False False False True "File 1" "png_bytes @ [1]"]
    process_file_persistence_failure [of thumbnail_failing_env "''cat.png''" "Bytes png_bytes"
      "''image/png''" "User 1" False False False True "File 1" "png_bytes @ [1]"]
  by (simp add: failing_env_def thumbnail_failing_env_def example_env_def IMAGE_EXTENSIONS_def
      primary_file_args_def thumbnail_file_args_def)

subsection \<open>What is persisted\<close>

lemma primary_content_reads:
  "primary_content (map StreamRead reads @ ev) = primary_content ev"
  by (induction reads) simp_all

lemma process_file_events:
  "\<exists>ev. snd (process_file e filename data content_type usr to_b64 make_thumbnail public private)
        = CreateFile (primary_file_args filename data content_type usr to_b64 public private) # ev"
  by (simp add: process_file_def Let_def split: option.splits prod.splits sum.splits)

lemma process_stream_within:
  assumes "int (length (concat (part_stream p))) \<le> max_file_size cfg"
    and "part_content_type p \<in> set (accepted_files cfg)"
  shows "\<exists>reads. process_stream e cfg p =
           (if part_content_type p \<in> IMAGE_EXTENSIONS
            then (case pil_save_optimized e (concat (part_stream p)) of
                    Inl x \<Rightarrow> (Inl x, map StreamRead reads @ [CompressImage (concat (part_stream p))])
                  | Inr b \<Rightarrow> (Inr (BytesIO b),
                              map StreamRead reads @ [CompressImage (concat (part_stream p))]))
            else (Inr (Bytes (concat (part_stream p))), map StreamRead reads))"
proof -
  from read_loop_within_eq [OF assms(1)] obtain chunks where
    rl: "read_loop (max_file_size cfg) (part_stream p) 0 [] = (Inr chunks, chunks @ [[]])"
    and cc: "concat chunks = concat (part_stream p)" by blast
  have "process_stream e cfg p =
           (if part_content_type p \<in> IMAGE_EXTENSIONS
            then (case pil_save_optimized e (concat (part_stream p)) of
                    Inl x \<Rightarrow> (Inl x, map StreamRead (chunks @ [[]]) @ [CompressImage (concat (part_stream p))])
                  | Inr b \<Rightarrow> (Inr (BytesIO b),
                              map StreamRead (chunks @ [[]]) @ [CompressImage (concat (part_stream p))]))
            else (Inr (Bytes (concat (part_stream p))), map StreamRead (chunks @ [[]])))"
    using assms(2)
    by (subst process_stream_def, subst rl)
       (simp add: check_if_valid_content_type_def cc compress_image_def split: sum.splits)
  then show ?thesis by blast
qed

lemma on_post_primary_content:
  assumes "\<not> truthy_id ident" and "req_session req = Some sess" and "req_form req = p # ps"
    and "process_stream e cfg p = (Inr content, pre)"
    and "primary_content pre = None"
  shows "primary_content (snd (on_post e cfg req ident)) = Some content"
proof -
  let ?pf = "process_file e (part_filename p) content (part_content_type p) (session_user sess)
       False (check_if_make_thumbnail req) (check_if_public_file req) (check_if_private_file req)"
  obtain ev where ev: "snd ?pf = CreateFile (primary_file_args (part_filename p) content
      (part_content_type p) (session_user sess) False (check_if_public_file req)
      (check_if_private_file req)) # ev"
    using process_file_events by blast
  have pc: "primary_content (pre @ snd ?pf) = Some content"
    using assms(5) unfolding ev
    by (induction pre rule: primary_content.induct) (simp_all add: primary_file_args_def)
  obtain r evf where pf: "?pf = (r, evf)" by (cases ?pf)
  with pc have pc': "primary_content (pre @ evf) = Some content" by simp
  show ?thesis
    using assms(1-4) pf pc'
    by (simp add: on_post_def on_post_loop_def split: sum.splits prod.splits option.splits)
qed


lemma on_post_base64_primary_content:
  assumes "\<not> truthy_id ident" and "req_session req = Some sess"
    and "get_base64_info cfg (req_body req) = Inr (base64_info, file_name)"
    and "b64decode e base64_info = Inr decoded"
    and "filetype_guess e decoded = Some mimetype"
    and "mimetype \<in> set (accepted_files cfg)"
  shows "primary_content (snd (on_post_base64 e cfg req ident)) = Some (Bytes decoded)"
proof -
  let ?pf = "process_file e file_name (Bytes decoded) mimetype (session_user sess)
       False (check_if_make_thumbnail req) (check_if_public_file req) (check_if_private_file req)"
  obtain ev where ev: "snd ?pf = CreateFile (primary_file_args file_name (Bytes decoded)
      mimetype (session_user sess) False (check_if_public_file req)
      (check_if_private_file req)) # ev"
    using process_file_events by blast
  obtain r evf where pf: "?pf = (r, evf)" by (cases ?pf)
  with ev have pc: "primary_content evf = Some (Bytes decoded)"
    by (simp add: primary_file_args_def)
  show ?thesis
    using assms pf pc
    by (simp add: on_post_base64_def decode_base64_file_def get_mimetype_def
        check_if_valid_content_type_def split: sum.splits prod.splits option.splits)
qed

text \<open>
  C8. For an accepted upload within the size limit, the content handed to the first
  \<^verbatim>\<open>create_file\<close> call is: on the stream path, the output of the compression for a type
  of the image set (when the image library accepts the bytes) and the bytes of the stream as
  they are for any other type; on the base64 path, the decoded bytes as they are, for a type
  of the image set as for any other.
\<close>

theorem primary_file_content:
  "(\<not> truthy_id ident \<longrightarrow> req_session mreq = Some sess \<longrightarrow> req_form mreq = p # ps \<longrightarrow>
      part_content_type p \<in> set (accepted_files cfg) \<longrightarrow>
      int (length (concat (part_stream p))) \<le> max_file_size cfg \<longrightarrow>
        (part_content_type p \<in> IMAGE_EXTENSIONS \<longrightarrow>
           pil_save_optimized e (concat (part_stream p)) = Inr compressed \<longrightarrow>
           primary_content (snd (on_post e cfg mreq ident)) = Some (BytesIO compressed))
        \<and> (part_content_type p \<notin> IMAGE_EXTENSIONS \<longrightarrow>
           primary_content (snd (on_post e cfg mreq ident))
           = Some (Bytes (concat (part_stream p)))))
   \<and> (\<not> truthy_id ident \<longrightarrow> req_session req = Some sess \<longrightarrow>
      get_base64_info cfg (req_body req) = Inr (base64_info, file_name) \<longrightarrow>
      b64decode e base64_info = Inr decoded \<longrightarrow>
      filetype_guess e decoded = Some mimetype \<longrightarrow>
      mimetype \<in> set (accepted_files cfg) \<longrightarrow>
      primary_content (snd (on_post_base64 e cfg req ident)) = Some (Bytes decoded))"
proof (intro conjI impI)
  assume a: "\<not> truthy_id ident" "req_session mreq = Some sess" "req_form mreq = p # ps"
    and acc: "part_content_type p \<in> set (accepted_files cfg)"
    and len: "int (length (concat (part_stream p))) \<le> max_file_size cfg"
  from process_stream_within [OF len acc, of e] obtain reads where
    ps: "process_stream e cfg p =
           (if part_content_type p \<in> IMAGE_EXTENSIONS
            then (case pil_save_optimized e (concat (part_stream p)) of
                    Inl x \<Rightarrow> (Inl x, map StreamRead reads @ [CompressImage (concat (part_stream p))])
                  | Inr b \<Rightarrow> (Inr (BytesIO b),
                              map StreamRead reads @ [CompressImage (concat (part_stream p))]))
            else (Inr (Bytes (concat (part_stream p))), map StreamRead reads))" by blast
  {
    assume "part_content_type p \<in> IMAGE_EXTENSIONS"
      and "pil_save_optimized e (concat (part_stream p)) = Inr compressed"
    with ps have "process_stream e cfg p
        = (Inr (BytesIO compressed),
           map StreamRead reads @ [CompressImage (concat (part_stream p))])" by simp
    moreover have "primary_content (map StreamRead reads @ [CompressImage (concat (part_stream p))])
        = None" by (simp add: primary_content_reads)
    ultimately show "primary_content (snd (on_post e cfg mreq ident)) = Some (BytesIO compressed)"
      using a by (intro on_post_primary_content)
  }
  {
    assume "part_content_type p \<notin> IMAGE_EXTENSIONS"
    with ps have "process_stream e cfg p
        = (Inr (Bytes (concat (part_stream p))), map StreamRead reads)" by simp
    moreover have "primary_content (map StreamRead reads) = None"
      using primary_content_reads [of reads "[]"] by simp
    ultimately show "primary_content (snd (on_post e cfg mreq ident))
        = Some (Bytes (concat (part_stream p)))"
      using a by (intro on_post_primary_content)
  }
next
  assume "\<not> truthy_id ident" "req_session req = Some sess"
    "get_base64_info cfg (req_body req) = Inr (base64_info, file_name)"
    "b64decode e base64_info = Inr decoded"
    "filetype_guess e decoded = Some mimetype"
    "mimetype \<in> set (accepted_files cfg)"
  then show "primary_content (snd (on_post_base64 e cfg req ident)) = Some (Bytes decoded)"
    by (rule on_post_base64_primary_content)
qed

theorem primary_file_content_witness:
  "primary_content (snd (on_post example_env example_config (multipart_request [png_part]) None))
   = Some (BytesIO (png_bytes @ [0]))
   \<and> primary_content (snd (on_post_base64 example_env example_config
        (base64_request ''cat.png'' ''iVBORw0KGgo='') None))
   = Some (Bytes png_bytes)
   \<and> primary_content (snd (on_post example_env example_config (multipart_request [pdf_part]) None))
   = Some (Bytes pdf_bytes)
   \<and> primary_content (snd (on_post_base64 example_env example_config
        (base64_request ''doc.pdf'' ''JVBERg=='') None))
   = Some (Bytes pdf_bytes)"
  using primary_file_content [of None "multipart_request [png_part]" "Session (User 1)" png_part "[]"
      example_config example_env "png_bytes @ [0]" "base64_request ''cat.png'' ''iVBORw0KGgo=''"
      "''iVBORw0KGgo=''" "''cat.png''" png_bytes "''image/png''"]
    primary_file_content [of None "multipart_request [pdf_part]" "Session (User 1)" pdf_part "[]"
      example_config example_env "[]" "base64_request ''doc.pdf'' ''JVBERg==''"
      "''JVBERg==''" "''doc.pdf''" pdf_bytes "''application/pdf''"]
  by (simp add: multipart_request_def base64_request_def png_part_def pdf_part_def
      example_config_def example_env_def IMAGE_EXTENSIONS_def get_base64_info_def
      get_base64_file_length_eq png_bytes_def pdf_bytes_def gif_bytes_def)

subsection \<open>A form without parts\<close>

text \<open>
  C9. A multipart POST with a session and a form of zero parts: the loop body never runs,
  line 125 reads the local \<^verbatim>\<open>code\<close> that was never assigned, and the
  \<^verbatim>\<open>UnboundLocalError\<close> leaves the handler; no response is written.
\<close>

theorem on_post_empty_form:
  assumes "\<not> truthy_id ident" and "req_session req = Some sess" and "req_form req = []"
  shows "on_post e cfg req ident = (Escaped (UnboundLocalError ''code''), [])"
  using assms by (simp add: on_post_def on_post_loop_def)

theorem on_post_empty_form_witness:
  "\<not> truthy_id None
   \<and> req_session (multipart_request []) = Some (Session (User 1))
   \<and> req_form (multipart_request []) = []
   \<and> on_post example_env example_config (multipart_request []) None
       = (Escaped (UnboundLocalError ''code''), [])"
  using on_post_empty_form [of None "multipart_request []" "Session (User 1)" example_env example_config]
  by (simp add: multipart_request_def)

end
